theory Spec2Isabelle
  imports Complex_Main "HOL-Library.Sublist"
begin

section \<open>tendermint-exporter: the scrape aggregator, the version probe and the renderer\<close>

text \<open>
  \<^verbatim>\<open>src/main.go\<close> holds the current revision of the program (lines 1 to 438) and, after
  it, the oldest one; \<^verbatim>\<open>src/unnamed/part_001\<close> is the revision between the two. The
  development follows the current revision, which is the one the specification describes
  (skipped fetches, the JSON line of the probe, the 500 response). Go strings are byte
  sequences and are modelled as \<^typ>\<open>string\<close>; a nullable Go \<^verbatim>\<open>error\<close> or pointer is an
  \<^typ>\<open>'a option\<close> with \<^term>\<open>None\<close> for \<^verbatim>\<open>nil\<close>. Log output is not part of the model.
\<close>

subsection \<open>The functions of package \<^verbatim>\<open>strings\<close> that the program calls\<close>

text \<open>\<^verbatim>\<open>strings.HasPrefix(s, prefix)\<close>: \<^verbatim>\<open>len(s) >= len(prefix) && s[:len(prefix)] == prefix\<close>.\<close>

definition HasPrefix :: "string \<Rightarrow> string \<Rightarrow> bool" where
  "HasPrefix s pre = (length pre \<le> length s \<and> take (length pre) s = pre)"

text \<open>\<^verbatim>\<open>strings.HasSuffix(s, suffix)\<close>:
  \<^verbatim>\<open>len(s) >= len(suffix) && s[len(s)-len(suffix):] == suffix\<close>.\<close>

definition HasSuffix :: "string \<Rightarrow> string \<Rightarrow> bool" where
  "HasSuffix s suf = (length suf \<le> length s \<and> drop (length s - length suf) s = suf)"

text \<open>\<^verbatim>\<open>strings.Contains(s, substr)\<close>: \<^verbatim>\<open>substr\<close> occurs in \<^verbatim>\<open>s\<close> at some
  byte offset; the scan tries offset 0 and then moves one byte on.\<close>

fun Contains :: "string \<Rightarrow> string \<Rightarrow> bool" where
  "Contains [] substr = (substr = [])"
| "Contains (c # cs) substr = (HasPrefix (c # cs) substr \<or> Contains cs substr)"

text \<open>\<^verbatim>\<open>strings.Split(s, sep)\<close> for a separator of one byte, which is how the program
  calls it (\<^verbatim>\<open>"\n"\<close> and \<^verbatim>\<open>" "\<close>): the pieces between the occurrences of the
  separator, one more than there are occurrences. \<open>cur\<close> is the piece being read.\<close>

fun Split_from :: "string \<Rightarrow> string \<Rightarrow> char \<Rightarrow> string list" where
  "Split_from cur [] sep = [cur]"
| "Split_from cur (c # cs) sep =
     (if c = sep then cur # Split_from [] cs sep else Split_from (cur @ [c]) cs sep)"

definition Split :: "string \<Rightarrow> char \<Rightarrow> string list" where
  "Split s sep = Split_from [] s sep"

text \<open>The line feed, \<^verbatim>\<open>"\n"\<close>.\<close>

definition newline :: char where
  "newline = CHR 0x0A"

subsection \<open>\<^verbatim>\<open>getJsonString\<close>\<close>

text \<open>The test of the loop body, \<^verbatim>\<open>strings.HasPrefix(line, "{") && strings.HasSuffix(line, "}")\<close>.\<close>

definition isJsonLine :: "string \<Rightarrow> bool" where
  "isJsonLine line = (HasPrefix line ''{'' \<and> HasSuffix line ''}'')"

text \<open>The \<^verbatim>\<open>for _, line := range split\<close> loop: \<^term>\<open>Some line\<close> when the loop returns
  \<^verbatim>\<open>line\<close>, \<^term>\<open>None\<close> when it runs to the end of the slice.\<close>

fun getJsonString_loop :: "string list \<Rightarrow> string option" where
  "getJsonString_loop [] = None"
| "getJsonString_loop (line # rest) =
     (if isJsonLine line then Some line else getJsonString_loop rest)"

definition getJsonString :: "string \<Rightarrow> string" where
  "getJsonString input =
     (case getJsonString_loop (Split input newline) of
        Some line \<Rightarrow> line
      | None \<Rightarrow> input)"

subsection \<open>The data of a scrape\<close>

text \<open>A Go \<^verbatim>\<open>error\<close> value; \<^term>\<open>Error e\<close> is what \<^verbatim>\<open>e.Error()\<close> returns.\<close>

datatype error = ErrorString (Error: string)

text \<open>\<^verbatim>\<open>VersionInfo\<close> and \<^verbatim>\<open>ReleaseInfo\<close>. Both structs call their first field
  \<^verbatim>\<open>Name\<close>; the record fields carry the struct's name in front to keep them apart.\<close>

record VersionInfo =
  VersionInfo_Name :: string
  Version :: string

record ReleaseInfo =
  ReleaseInfo_Name :: string
  TagName :: string

text \<open>The fields of \<^verbatim>\<open>coretypes.ResultStatus\<close> that the program reads. The two
  \<^verbatim>\<open>int64\<close> fields and the time stamp (nanoseconds) are integers: the program only
  passes them on.\<close>

record NodeInfo =
  DefaultNodeID :: string
  Moniker :: string

record SyncInfo =
  LatestBlockHeight :: int
  LatestBlockTime :: int
  CatchingUp :: bool

record ValidatorInfo =
  VotingPower :: int

record ResultStatus =
  NodeInfo :: NodeInfo
  SyncInfo :: SyncInfo
  ValidatorInfo :: ValidatorInfo

record Data =
  releaseInfo :: ReleaseInfo
  versionInfo :: VersionInfo
  localStatus :: "ResultStatus option"
  remoteStatus :: "ResultStatus option"
  err :: "error option"

text \<open>The zero values of Go: \<^verbatim>\<open>VersionInfo{}\<close>, \<^verbatim>\<open>ReleaseInfo{}\<close>, and
  \<^verbatim>\<open>Data{err: e}\<close>, a composite literal that leaves every other field zero.\<close>

definition VersionInfo_zero :: VersionInfo where
  "VersionInfo_zero = \<lparr>VersionInfo_Name = [], Version = []\<rparr>"

definition ReleaseInfo_zero :: ReleaseInfo where
  "ReleaseInfo_zero = \<lparr>ReleaseInfo_Name = [], TagName = []\<rparr>"

definition Data_err :: "error option \<Rightarrow> Data" where
  "Data_err e =
     \<lparr>releaseInfo = ReleaseInfo_zero, versionInfo = VersionInfo_zero,
      localStatus = None, remoteStatus = None, err = e\<rparr>"

text \<open>The package-level configuration variables that a scrape reads. They are set once
  from the flags, and the empty string means "not set".\<close>

record Config =
  LocalTendermintRpc :: string
  RemoteTendermintRpc :: string
  BinaryPath :: string
  BinaryArgs :: string
  GithubOrg :: string
  GithubRepo :: string
  GithubToken :: string

subsection \<open>The outside world\<close>

text \<open>
  What the libraries answer during one scrape is a parameter of the model:
  \<^item> \<open>tmrpc_New url\<close>: the error of \<^verbatim>\<open>tmrpc.New(url, "/websocket")\<close>;
  \<^item> \<open>client_Status url\<close>: the pair that \<^verbatim>\<open>client.Status(ctx)\<close> returns for the client of
    \<open>url\<close>; nothing is assumed of it, so it may be \<^verbatim>\<open>(nil, nil)\<close>;
  \<^item> \<open>http_NewRequest url\<close>: the error of \<^verbatim>\<open>http.NewRequest("GET", url, nil)\<close>;
  \<^item> \<open>client_Do url auth\<close>: \<^verbatim>\<open>client.Do(req)\<close> for the request to \<open>url\<close> with the
    \<^verbatim>\<open>Authorization\<close> header \<open>auth\<close>: an error or the response body;
  \<^item> \<open>Decode_ReleaseInfo body target\<close>: \<^verbatim>\<open>json.NewDecoder(body).Decode(&target)\<close>, the
    target after the call and the error;
  \<^item> \<open>CombinedOutput path args\<close>: \<^verbatim>\<open>exec.Command(path, args...).CombinedOutput()\<close>;
  \<^item> \<open>Unmarshal_VersionInfo text\<close>: \<^verbatim>\<open>json.Unmarshal(text, &versionInfo)\<close> into a fresh
    \<^verbatim>\<open>VersionInfo\<close>, the struct after the call and the error;
  \<^item> \<open>time_Since t\<close>: \<^verbatim>\<open>time.Since(t).Seconds()\<close>.

  An answer is a function of the arguments of the call: within one scrape, two calls with
  the same arguments get the same answer.
\<close>

record Env =
  tmrpc_New :: "string \<Rightarrow> error option"
  client_Status :: "string \<Rightarrow> ResultStatus option \<times> error option"
  http_NewRequest :: "string \<Rightarrow> error option"
  client_Do :: "string \<Rightarrow> string option \<Rightarrow> error + string"
  Decode_ReleaseInfo :: "string \<Rightarrow> ReleaseInfo \<Rightarrow> ReleaseInfo \<times> error option"
  CombinedOutput :: "string \<Rightarrow> string list \<Rightarrow> string \<times> error option"
  Unmarshal_VersionInfo :: "string \<Rightarrow> VersionInfo \<times> error option"
  time_Since :: "int \<Rightarrow> real"

subsection \<open>The fetchers\<close>

text \<open>\<^verbatim>\<open>GetNodeStatus\<close>: the three checks in the source's order.\<close>

definition GetNodeStatus :: "Env \<Rightarrow> string \<Rightarrow> ResultStatus option \<times> error option" where
  "GetNodeStatus w nodeUrl =
     (case tmrpc_New w nodeUrl of
        Some e \<Rightarrow> (None, Some e)
      | None \<Rightarrow>
          (let (st, queryError) = client_Status w nodeUrl in
           if queryError \<noteq> None then (None, queryError)
           else if st = None then (None, Some (ErrorString ''empty status from node''))
           else (st, None)))"

text \<open>\<^verbatim>\<open>GetGithubRelease\<close>: the target is passed by pointer, so the model returns its
  value after the call together with the error.\<close>

definition GetGithubRelease ::
  "Env \<Rightarrow> Config \<Rightarrow> string \<Rightarrow> ReleaseInfo \<Rightarrow> ReleaseInfo \<times> error option" where
  "GetGithubRelease w cfg url target =
     (case http_NewRequest w url of
        Some e \<Rightarrow> (target, Some e)
      | None \<Rightarrow>
          (let auth = (if GithubToken cfg \<noteq> [] then Some (''Bearer '' @ GithubToken cfg)
                       else None)
           in case client_Do w url auth of
                Inl e \<Rightarrow> (target, Some e)
              | Inr resBody \<Rightarrow> Decode_ReleaseInfo w resBody target))"

text \<open>\<^verbatim>\<open>GetBinaryVersion\<close>.\<close>

definition GetBinaryVersion :: "Env \<Rightarrow> Config \<Rightarrow> VersionInfo \<times> error option" where
  "GetBinaryVersion w cfg =
     (let args = Split (BinaryArgs cfg) CHR '' '';
          (out, runError) = CombinedOutput w (BinaryPath cfg) args
      in if runError \<noteq> None then (VersionInfo_zero, runError)
         else
           (let jsonOutput = getJsonString out;
                (info, decodeError) = Unmarshal_VersionInfo w jsonOutput
            in if decodeError \<noteq> None then (info, decodeError) else (info, None)))"

subsection \<open>\<^verbatim>\<open>GetAllData\<close>\<close>

text \<open>
  \<^verbatim>\<open>GetAllData\<close> starts four goroutines and waits for all of them. Each goroutine
  writes two variables that no other goroutine touches, and what it writes depends on
  the configuration and the outside world only, so the values read after
  \<^verbatim>\<open>wg.Wait()\<close> are those of the four goroutines run one by one. The model of a
  goroutine is the pair of its variables at \<^verbatim>\<open>wg.Done()\<close>, with the fetchers it has
  called; a goroutine that returns early leaves its variables at their zero values. The
  model takes the barrier as given: every goroutine has finished when the checks start.
  (The source calls \<^verbatim>\<open>wg.Add(1)\<close> after each \<^verbatim>\<open>go\<close> statement; the model is of the
  schedules in which the counter is raised before the goroutine reaches \<^verbatim>\<open>wg.Done()\<close>.)
\<close>

datatype fetch =
  Fetch_GetNodeStatus string
| Fetch_GetGithubRelease string
| Fetch_GetBinaryVersion

definition localStatus_goroutine ::
  "Env \<Rightarrow> Config \<Rightarrow> (ResultStatus option \<times> error option) \<times> fetch list" where
  "localStatus_goroutine w cfg =
     (GetNodeStatus w (LocalTendermintRpc cfg), [Fetch_GetNodeStatus (LocalTendermintRpc cfg)])"

definition remoteStatus_goroutine ::
  "Env \<Rightarrow> Config \<Rightarrow> (ResultStatus option \<times> error option) \<times> fetch list" where
  "remoteStatus_goroutine w cfg =
     (if RemoteTendermintRpc cfg = [] then ((None, None), [])
      else (GetNodeStatus w (RemoteTendermintRpc cfg),
            [Fetch_GetNodeStatus (RemoteTendermintRpc cfg)]))"

definition releaseInfo_goroutine ::
  "Env \<Rightarrow> Config \<Rightarrow> (ReleaseInfo \<times> error option) \<times> fetch list" where
  "releaseInfo_goroutine w cfg =
     (if GithubOrg cfg = [] \<or> GithubRepo cfg = [] then ((ReleaseInfo_zero, None), [])
      else
        (let latestReleaseUrl =
               ''https://api.github.com/repos/'' @ GithubOrg cfg @ ''/'' @ GithubRepo cfg
               @ ''/releases/latest''
         in (GetGithubRelease w cfg latestReleaseUrl ReleaseInfo_zero,
             [Fetch_GetGithubRelease latestReleaseUrl])))"

definition versionInfo_goroutine ::
  "Env \<Rightarrow> Config \<Rightarrow> (VersionInfo \<times> error option) \<times> fetch list" where
  "versionInfo_goroutine w cfg =
     (if BinaryPath cfg = [] then ((VersionInfo_zero, None), [])
      else (GetBinaryVersion w cfg, [Fetch_GetBinaryVersion]))"

text \<open>The checks after \<^verbatim>\<open>wg.Wait()\<close>, in the source's order, and the fetchers called,
  in the order in which the goroutines are started.\<close>

definition GetAllData_run :: "Env \<Rightarrow> Config \<Rightarrow> Data \<times> fetch list" where
  "GetAllData_run w cfg =
     (let ((localSt, localStatusError), calls1) = localStatus_goroutine w cfg;
          ((remoteSt, remoteStatusError), calls2) = remoteStatus_goroutine w cfg;
          ((release, releaseInfoError), calls3) = releaseInfo_goroutine w cfg;
          ((version, versionInfoError), calls4) = versionInfo_goroutine w cfg
      in (if localStatusError \<noteq> None then Data_err localStatusError
          else if remoteStatusError \<noteq> None then Data_err remoteStatusError
          else if releaseInfoError \<noteq> None then Data_err releaseInfoError
          else if versionInfoError \<noteq> None then Data_err versionInfoError
          else \<lparr>releaseInfo = release, versionInfo = version,
                localStatus = localSt, remoteStatus = remoteSt, err = None\<rparr>,
          calls1 @ calls2 @ calls3 @ calls4))"

definition GetAllData :: "Env \<Rightarrow> Config \<Rightarrow> Data" where
  "GetAllData w cfg = fst (GetAllData_run w cfg)"

definition fetchers_called :: "Env \<Rightarrow> Config \<Rightarrow> fetch list" where
  "fetchers_called w cfg = snd (GetAllData_run w cfg)"

subsection \<open>\<^verbatim>\<open>Handler\<close>\<close>

text \<open>
  A sample is one \<^verbatim>\<open>gaugeVec.With(labels).Set(v)\<close> of the handler: the gauge's name, the
  labels and the value. A \<^verbatim>\<open>float64\<close> value is the real number it denotes. The registry
  is new in every request, so what \<^verbatim>\<open>promhttp\<close> serves is the samples set in this
  request; the model lists them in the order of the source and leaves the text format to
  the library. \<^verbatim>\<open>With\<close> is taken to accept its labels: the names are those each gauge is
  declared with, and the values are taken to be valid UTF-8, as decoded JSON strings are.
\<close>

record sample =
  metric :: string
  labels :: "(string \<times> string) list"
  gauge :: real

datatype body = PlainText string | Exposition "sample list"

record Response =
  StatusCode :: nat
  Body :: body

text \<open>What a request ends in: a response, or the panic of a nil pointer dereference.\<close>

datatype outcome = Panic | Reply Response

definition BoolToFloat64 :: "bool \<Rightarrow> real" where
  "BoolToFloat64 b = (if b then 1 else 0)"

text \<open>
  The conversion \<^verbatim>\<open>float64(x)\<close> of an \<^verbatim>\<open>int64\<close>: exact up to \<open>2 ^ 53\<close> in magnitude,
  and beyond that rounded to the nearest number with a significand of 53 bits, a tie going
  to the even significand. The result is an integer again, which \<open>round_to_float64\<close>
  computes: for a magnitude \<open>m\<close> between \<open>2 ^ 53\<close> and \<open>2 ^ 63\<close>, the range of
  \<^verbatim>\<open>int64\<close>, \<open>e\<close> is the number of low bits that do not fit, \<open>q\<close> the 53 leading bits
  and \<open>r\<close> the bits cut off.
\<close>

definition round_to_float64 :: "int \<Rightarrow> int" where
  "round_to_float64 n =
     (if \<bar>n\<bar> \<le> 2 ^ 53 then n
      else
        (let m = nat \<bar>n\<bar>;
             e = length (filter (\<lambda>k. 2 ^ k \<le> m) [53, 54, 55, 56, 57, 58, 59, 60, 61, 62, 63]);
             q = m div 2 ^ e;
             r = m mod 2 ^ e;
             q' = (if 2 ^ e < 2 * r \<or> (2 * r = 2 ^ e \<and> odd q) then q + 1 else q)
         in sgn n * int (q' * 2 ^ e)))"

definition float64_of_int64 :: "int \<Rightarrow> real" where
  "float64_of_int64 n = real_of_int (round_to_float64 n)"

text \<open>The test that decides the mismatch gauge: \<^verbatim>\<open>versionMismatch\<close> is its negation.\<close>

definition versionsMatch :: "string \<Rightarrow> string \<Rightarrow> bool" where
  "versionsMatch tag ver = (Contains tag ver \<or> Contains ver tag)"

text \<open>The gauges set once \<^verbatim>\<open>data.err\<close> is known to be nil; \<open>ls\<close> is
  \<^verbatim>\<open>*data.localStatus\<close>.\<close>

definition Handler_samples :: "Env \<Rightarrow> Config \<Rightarrow> Data \<Rightarrow> ResultStatus \<Rightarrow> sample list" where
  "Handler_samples w cfg data ls =
     (let node = [(''id'', DefaultNodeID (NodeInfo ls)), (''moniker'', Moniker (NodeInfo ls))];
          ver = Version (versionInfo data);
          tag = TagName (releaseInfo data)
      in
        [\<lparr>metric = ''tendermint_node_catching_up'', labels = node,
          gauge = BoolToFloat64 (CatchingUp (SyncInfo ls))\<rparr>,
         \<lparr>metric = ''tendermint_node_voting_power'', labels = node,
          gauge = float64_of_int64 (VotingPower (ValidatorInfo ls))\<rparr>,
         \<lparr>metric = ''tendermint_node_time_since_latest_block'', labels = node,
          gauge = time_Since w (LatestBlockTime (SyncInfo ls))\<rparr>]
        @ (if ver \<noteq> [] then
             [\<lparr>metric = ''tendermint_node_app_version'',
               labels = node @ [(''version'', ver)], gauge = 1\<rparr>]
           else [])
        @ (if tag \<noteq> [] then
             [\<lparr>metric = ''tendermint_github_latest_version'',
               labels = [(''organization'', GithubOrg cfg), (''repository'', GithubRepo cfg),
                         (''version'', tag)],
               gauge = 1\<rparr>]
           else [])
        @ (if ver \<noteq> [] \<and> tag \<noteq> [] then
             (let versionMismatch = (\<not> versionsMatch tag ver) in
              [\<lparr>metric = ''tendermint_latest_version_mismatch'',
                labels = node @ [(''local_version'', ver), (''remote_version'', tag)],
                gauge = BoolToFloat64 versionMismatch\<rparr>])
           else [])
        @ [\<lparr>metric = ''tendermint_local_node_latest_block'', labels = node,
            gauge = float64_of_int64 (LatestBlockHeight (SyncInfo ls))\<rparr>]
        @ (case remoteStatus data of
             None \<Rightarrow> []
           | Some rs \<Rightarrow>
               [\<lparr>metric = ''tendermint_remote_node_latest_block'',
                 labels = [(''id'', DefaultNodeID (NodeInfo rs)),
                           (''moniker'', Moniker (NodeInfo rs))],
                 gauge = float64_of_int64 (LatestBlockHeight (SyncInfo rs))\<rparr>]))"

text \<open>The handler from \<^verbatim>\<open>data := GetAllData()\<close> on. With \<^verbatim>\<open>data.err\<close> nil the first
  gauge reads \<^verbatim>\<open>data.localStatus.NodeInfo\<close>, which panics on a nil pointer.\<close>

definition Handler_data :: "Env \<Rightarrow> Config \<Rightarrow> Data \<Rightarrow> outcome" where
  "Handler_data w cfg data =
     (case err data of
        Some e \<Rightarrow>
          Reply \<lparr>StatusCode = 500, Body = PlainText (''Error fetching data: '' @ Error e)\<rparr>
      | None \<Rightarrow>
          (case localStatus data of
             None \<Rightarrow> Panic
           | Some ls \<Rightarrow>
               Reply \<lparr>StatusCode = 200, Body = Exposition (Handler_samples w cfg data ls)\<rparr>))"

definition Handler :: "Env \<Rightarrow> Config \<Rightarrow> outcome" where
  "Handler w cfg = Handler_data w cfg (GetAllData w cfg)"

text \<open>The gauge samples that a request puts on the wire.\<close>

fun emitted :: "outcome \<Rightarrow> sample list" where
  "emitted Panic = []"
| "emitted (Reply r) = (case Body r of PlainText t \<Rightarrow> [] | Exposition ss \<Rightarrow> ss)"

subsection \<open>The earlier revision of the checks\<close>

text \<open>
  The revision of \<^verbatim>\<open>GetAllData\<close> before the current one (\<^verbatim>\<open>src/unnamed/part_001\<close>, lines
  280 to 305) runs the same four checks on the eight variables, but its second check tests
  \<^verbatim>\<open>localStatusError\<close> again where the current revision tests
  \<^verbatim>\<open>remoteStatusError\<close>. It is kept here for comparison only: the theorems below are
  about the current revision.
\<close>

definition GetAllData_checks_part_001 ::
  "ResultStatus option \<Rightarrow> ResultStatus option \<Rightarrow> ReleaseInfo \<Rightarrow> VersionInfo \<Rightarrow>
   error option \<Rightarrow> error option \<Rightarrow> error option \<Rightarrow> error option \<Rightarrow> Data" where
  "GetAllData_checks_part_001 localSt remoteSt release version
       localStatusError remoteStatusError releaseInfoError versionInfoError =
     (if localStatusError \<noteq> None then Data_err localStatusError
      else if localStatusError \<noteq> None then Data_err remoteStatusError
      else if releaseInfoError \<noteq> None then Data_err releaseInfoError
      else if versionInfoError \<noteq> None then Data_err versionInfoError
      else \<lparr>releaseInfo = release, versionInfo = version,
            localStatus = localSt, remoteStatus = remoteSt, err = None\<rparr>)"

subsection \<open>The specification's wording, for comparison with the code\<close>

text \<open>The first of a list of nullable errors that is set: the "fixed priority order" of
  the specification.\<close>

fun firstError :: "error option list \<Rightarrow> error option" where
  "firstError [] = None"
| "firstError (Some e # es) = Some e"
| "firstError (None # es) = firstError es"

text \<open>The specification selects "the first line whose trimmed content begins with
  \<^verbatim>\<open>{\<close> and ends with \<^verbatim>\<open>}\<close>". \<open>spec_trimmed\<close> removes the ASCII white space at both
  ends of a line, and \<open>spec_firstJsonLine\<close> is the selection in the specification's
  words.\<close>

definition spec_isSpace :: "char \<Rightarrow> bool" where
  "spec_isSpace c = (c \<in> {CHR '' '', CHR 0x09, CHR 0x0A, CHR 0x0B, CHR 0x0C, CHR 0x0D})"

definition spec_trimmed :: "string \<Rightarrow> string" where
  "spec_trimmed line = rev (dropWhile spec_isSpace (rev (dropWhile spec_isSpace line)))"

definition spec_firstJsonLine :: "string \<Rightarrow> string option" where
  "spec_firstJsonLine input =
     List.find (\<lambda>line. isJsonLine (spec_trimmed line)) (Split input newline)"

subsection \<open>A concrete scrape\<close>

text \<open>A configuration with every optional part set, and a world in which every fetch
  succeeds: the local node \<open>abc\<close> at height 500, the reference node at 501, the release
  \<open>v2.0.0\<close> and the binary's version \<open>2.0.0\<close>. The instances of the theorems below are
  variations of it.\<close>

definition example_status :: ResultStatus where
  "example_status =
     \<lparr>NodeInfo = \<lparr>DefaultNodeID = ''abc'', Moniker = ''node1''\<rparr>,
      SyncInfo = \<lparr>LatestBlockHeight = 500, LatestBlockTime = 0, CatchingUp = False\<rparr>,
      ValidatorInfo = \<lparr>VotingPower = 100\<rparr>\<rparr>"

definition example_remote_status :: ResultStatus where
  "example_remote_status =
     \<lparr>NodeInfo = \<lparr>DefaultNodeID = ''def'', Moniker = ''reference''\<rparr>,
      SyncInfo = \<lparr>LatestBlockHeight = 501, LatestBlockTime = 0, CatchingUp = False\<rparr>,
      ValidatorInfo = \<lparr>VotingPower = 0\<rparr>\<rparr>"

definition example_Config :: Config where
  "example_Config =
     \<lparr>LocalTendermintRpc = ''http://localhost:26657'',
      RemoteTendermintRpc = ''https://rpc.cosmos.network:443'',
      BinaryPath = ''/usr/bin/gaiad'',
      BinaryArgs = ''version --long --output json'',
      GithubOrg = ''cosmos'',
      GithubRepo = ''gaia'',
      GithubToken = []\<rparr>"

definition example_json :: string where
  \<open>example_json = ''{"name":"x","version":"2.0.0"}''\<close>

definition example_Env :: Env where
  "example_Env =
     \<lparr>tmrpc_New = (\<lambda>url. None),
      client_Status = (\<lambda>url. if url = ''http://localhost:26657''
                               then (Some example_status, None)
                               else (Some example_remote_status, None)),
      http_NewRequest = (\<lambda>url. None),
      client_Do = (\<lambda>url auth. Inr ''release''),
      Decode_ReleaseInfo =
        (\<lambda>resBody target. (\<lparr>ReleaseInfo_Name = ''Gaia v2.0.0'', TagName = ''v2.0.0''\<rparr>, None)),
      CombinedOutput = (\<lambda>path args. (''starting'' @ [newline] @ example_json @ [newline], None)),
      Unmarshal_VersionInfo =
        (\<lambda>text. if text = example_json
                then (\<lparr>VersionInfo_Name = ''x'', Version = ''2.0.0''\<rparr>, None)
                else (VersionInfo_zero, Some (ErrorString ''invalid character''))),
      time_Since = (\<lambda>t. 5)\<rparr>"

text \<open>The same world with failures: each of the four fetches fails when its flag is
  set, each with a message of its own.\<close>

definition example_Env_failing :: "bool \<Rightarrow> bool \<Rightarrow> bool \<Rightarrow> bool \<Rightarrow> Env" where
  "example_Env_failing localFails remoteFails releaseFails versionFails =
     example_Env
       \<lparr>client_Status :=
          (\<lambda>url. if url = ''http://localhost:26657''
                 then (if localFails then (None, Some (ErrorString ''connection refused''))
                       else (Some example_status, None))
                 else (if remoteFails then (None, Some (ErrorString ''i/o timeout''))
                       else (Some example_remote_status, None))),
        client_Do :=
          (\<lambda>url auth. if releaseFails then Inl (ErrorString ''rate limit'')
                      else Inr ''release''),
        CombinedOutput :=
          (\<lambda>path args. if versionFails then ([], Some (ErrorString ''exit status 1''))
                       else (''starting'' @ [newline] @ example_json @ [newline], None))\<rparr>"

text \<open>A snapshot without error whose version and tag are empty strings.\<close>

definition example_empty_Data :: Data where
  "example_empty_Data =
     \<lparr>releaseInfo = \<lparr>ReleaseInfo_Name = ''draft'', TagName = []\<rparr>,
      versionInfo = \<lparr>VersionInfo_Name = ''x'', Version = []\<rparr>,
      localStatus = Some example_status, remoteStatus = None, err = None\<rparr>"

section \<open>Properties\<close>

subsection \<open>The string functions\<close>

lemma HasPrefix_prefix: "HasPrefix s pre \<longleftrightarrow> prefix pre s"
  unfolding HasPrefix_def prefix_def
  by (metis append_eq_conv_conj append_take_drop_id length_append le_add1)

lemma Contains_sublist: "Contains s sub \<longleftrightarrow> sublist sub s"
  by (induction s) (auto simp: HasPrefix_prefix sublist_Cons_right)

lemma Split_from_separator:
  "sep \<notin> set a \<Longrightarrow> Split_from cur (a @ sep # b) sep = (cur @ a) # Split_from [] b sep"
  by (induction a arbitrary: cur) auto

lemma Split_from_no_separator: "sep \<notin> set a \<Longrightarrow> Split_from cur a sep = [cur @ a]"
  by (induction a arbitrary: cur) auto

lemma Split_lines:
  "sep \<notin> set a \<Longrightarrow> Split (a @ sep # b) sep = a # Split b sep"
  by (simp add: Split_def Split_from_separator)

lemma isJsonLine_iff: "isJsonLine l \<longleftrightarrow> l \<noteq> [] \<and> hd l = CHR ''{'' \<and> last l = CHR ''}''"
proof (cases l rule: rev_cases)
  case Nil
  then show ?thesis
    by (simp add: isJsonLine_def HasPrefix_def)
next
  case (snoc ys y)
  then show ?thesis
    by (cases ys) (auto simp add: isJsonLine_def HasPrefix_def HasSuffix_def)
qed

lemma getJsonString_loop_find: "getJsonString_loop ls = List.find isJsonLine ls"
  by (induction ls) auto

lemma getJsonString_loop_None:
  "\<forall>line \<in> set ls. \<not> isJsonLine line \<Longrightarrow> getJsonString_loop ls = None"
  by (induction ls) auto

subsection \<open>The conversion to \<^verbatim>\<open>float64\<close>\<close>

lemma float64_of_int64_exact: "\<bar>n\<bar> \<le> 2 ^ 53 \<Longrightarrow> float64_of_int64 n = real_of_int n"
  by (simp add: float64_of_int64_def round_to_float64_def)

text \<open>Above \<open>2 ^ 53\<close>: a tie that goes down, a tie that goes up, a value just below
  \<open>2 ^ 63\<close> that is rounded down, and the most negative values.\<close>

lemma round_to_float64_tie_down: "round_to_float64 9007199254740993 = 9007199254740992"
  by (simp add: round_to_float64_def Let_def)

lemma round_to_float64_tie_up: "round_to_float64 9007199254740995 = 9007199254740996"
  by (simp add: round_to_float64_def Let_def)

lemma round_to_float64_below_max: "round_to_float64 9223372036854775295 = 9223372036854774784"
  by (simp add: round_to_float64_def Let_def)

lemma round_to_float64_min_plus_1:
  "round_to_float64 (- 9223372036854775807) = - 9223372036854775808"
  by (simp add: round_to_float64_def Let_def)

lemma round_to_float64_min:
  "round_to_float64 (- 9223372036854775808) = - 9223372036854775808"
  by (simp add: round_to_float64_def Let_def)

subsection \<open>The JSON line of the probe's output\<close>

text \<open>
  Claim C4, as the specification states it: the extraction selects the first line whose
  trimmed content begins with \<^verbatim>\<open>{\<close> and ends with \<^verbatim>\<open>}\<close>, also when the line carries
  white space around the object. The code tests the line as it is: in an output of three
  lines whose second is a JSON object between blanks, the specification's selection is that
  second line, and \<^verbatim>\<open>getJsonString\<close> returns the whole output.
\<close>

theorem getJsonString_trimmed_counterexample:
  \<open>spec_firstJsonLine (''log'' @ [newline] @ ''  {"version":"1.0.0"} '' @ [newline] @ ''end'')
     = Some ''  {"version":"1.0.0"} ''
   \<and> getJsonString (''log'' @ [newline] @ ''  {"version":"1.0.0"} '' @ [newline] @ ''end'')
     = ''log'' @ [newline] @ ''  {"version":"1.0.0"} '' @ [newline] @ ''end''
   \<and> getJsonString (''log'' @ [newline] @ ''  {"version":"1.0.0"} '' @ [newline] @ ''end'')
     \<noteq> ''  {"version":"1.0.0"} ''\<close>
  by (simp add: spec_firstJsonLine_def getJsonString_def Split_def newline_def isJsonLine_def
      HasPrefix_def HasSuffix_def spec_trimmed_def spec_isSpace_def)

text \<open>
  Claim C4, amended: \<^verbatim>\<open>getJsonString\<close> selects the first of the lines between line feeds
  that itself, untrimmed, begins with \<^verbatim>\<open>{\<close> and ends with \<^verbatim>\<open>}\<close>; the result then
  begins and ends with the braces. For three lines of which only the second is such a
  line, the second is selected.
\<close>

theorem getJsonString_first_line:
  assumes "i < length (Split input newline)"
      and "isJsonLine (Split input newline ! i)"
      and "\<forall>j<i. \<not> isJsonLine (Split input newline ! j)"
    shows "getJsonString input = Split input newline ! i
      \<and> getJsonString input \<noteq> []
      \<and> hd (getJsonString input) = CHR ''{''
      \<and> last (getJsonString input) = CHR ''}''"
proof -
  have "List.find isJsonLine (Split input newline) = Some (Split input newline ! i)"
    unfolding find_Some_iff using assms by blast
  then have "getJsonString input = Split input newline ! i"
    by (simp add: getJsonString_def getJsonString_loop_find)
  with assms(2) show ?thesis
    by (simp add: isJsonLine_iff)
qed

theorem getJsonString_first_line_witness:
  "getJsonString (''starting'' @ [newline] @ example_json @ [newline] @ ''done'') = example_json"
  using getJsonString_first_line
          [of 1 "''starting'' @ [newline] @ example_json @ [newline] @ ''done''"]
  by (simp add: Split_def newline_def example_json_def isJsonLine_def HasPrefix_def HasSuffix_def)

text \<open>
  Claim C5: when the probe has run and no line of its output begins with \<^verbatim>\<open>{\<close> and ends
  with \<^verbatim>\<open>}\<close>, the candidate is the whole raw output, \<^verbatim>\<open>GetBinaryVersion\<close> returns what
  the decoder makes of it, and an error of the decoder is the error of the probe: there is
  no success with a zero \<^verbatim>\<open>VersionInfo\<close> for a text that the decoder rejects.
\<close>

theorem GetBinaryVersion_fallback:
  assumes "CombinedOutput w (BinaryPath cfg) (Split (BinaryArgs cfg) CHR '' '') = (out, None)"
      and "\<forall>line \<in> set (Split out newline). \<not> isJsonLine line"
    shows "getJsonString out = out
      \<and> GetBinaryVersion w cfg = Unmarshal_VersionInfo w out
      \<and> (snd (Unmarshal_VersionInfo w out) = Some e \<longrightarrow> snd (GetBinaryVersion w cfg) = Some e)"
proof -
  have candidate: "getJsonString out = out"
    using assms(2) by (simp add: getJsonString_def getJsonString_loop_None)
  have "GetBinaryVersion w cfg = Unmarshal_VersionInfo w out"
    using assms(1) by (simp add: GetBinaryVersion_def candidate split: prod.splits option.splits)
  with candidate show ?thesis by simp
qed

theorem GetBinaryVersion_fallback_witness:
  "GetBinaryVersion
     (example_Env\<lparr>CombinedOutput := \<lambda>path args. (''panic: no home'' @ [newline] @ ''{'', None)\<rparr>)
     example_Config
   = (VersionInfo_zero, Some (ErrorString ''invalid character''))"
  using GetBinaryVersion_fallback
          [of "example_Env\<lparr>CombinedOutput :=
                 \<lambda>path args. (''panic: no home'' @ [newline] @ ''{'', None)\<rparr>"
              example_Config "''panic: no home'' @ [newline] @ ''{''"
              "ErrorString ''invalid character''"]
  by (simp add: example_Env_def example_json_def Split_def newline_def isJsonLine_def
      HasPrefix_def HasSuffix_def)

subsection \<open>The gauges of an error-free snapshot\<close>

lemma Handler_samples_metrics:
  "map metric (Handler_samples w cfg data ls) =
     [''tendermint_node_catching_up'', ''tendermint_node_voting_power'',
      ''tendermint_node_time_since_latest_block'']
     @ (if Version (versionInfo data) \<noteq> [] then [''tendermint_node_app_version''] else [])
     @ (if TagName (releaseInfo data) \<noteq> [] then [''tendermint_github_latest_version''] else [])
     @ (if Version (versionInfo data) \<noteq> [] \<and> TagName (releaseInfo data) \<noteq> []
         then [''tendermint_latest_version_mismatch''] else [])
     @ [''tendermint_local_node_latest_block'']
     @ (if remoteStatus data \<noteq> None then [''tendermint_remote_node_latest_block''] else [])"
  by (simp add: Handler_samples_def Let_def split: option.splits)

lemma Handler_samples_mismatch:
  "filter (\<lambda>s. metric s = ''tendermint_latest_version_mismatch'') (Handler_samples w cfg data ls) =
     (if Version (versionInfo data) \<noteq> [] \<and> TagName (releaseInfo data) \<noteq> [] then
        [\<lparr>metric = ''tendermint_latest_version_mismatch'',
          labels = [(''id'', DefaultNodeID (NodeInfo ls)), (''moniker'', Moniker (NodeInfo ls)),
                    (''local_version'', Version (versionInfo data)),
                    (''remote_version'', TagName (releaseInfo data))],
          gauge = BoolToFloat64 (\<not> versionsMatch (TagName (releaseInfo data))
                                                 (Version (versionInfo data)))\<rparr>]
      else [])"
  by (simp add: Handler_samples_def Let_def split: option.splits)

lemma Handler_samples_no_version:
  "Version (versionInfo data) = [] \<Longrightarrow>
     Handler_samples w cfg (data\<lparr>versionInfo := VersionInfo_zero\<rparr>) ls
       = Handler_samples w cfg data ls"
  by (simp add: Handler_samples_def Let_def VersionInfo_zero_def)

lemma Handler_samples_no_tag:
  "TagName (releaseInfo data) = [] \<Longrightarrow>
     Handler_samples w cfg' (data\<lparr>releaseInfo := ReleaseInfo_zero\<rparr>) ls
       = Handler_samples w cfg data ls"
  by (simp add: Handler_samples_def Let_def ReleaseInfo_zero_def)

text \<open>
  Claim C6: the test behind the mismatch gauge holds exactly when one version string is a
  substring of the other, so it is symmetric; it holds of \<open>v1.2.0\<close> and \<open>1.2.0\<close> and
  fails of \<open>1.2.0\<close> and \<open>1.3.0\<close>; and the mismatch gauge, where the handler sets it, is
  the negation of the test on the release tag and the local version: 0 when they match
  and 1 when they do not.
\<close>

theorem versionsMatch_symmetric:
  "versionsMatch a b = versionsMatch b a
   \<and> (versionsMatch a b \<longleftrightarrow> sublist a b \<or> sublist b a)
   \<and> versionsMatch ''v1.2.0'' ''1.2.0''
   \<and> \<not> versionsMatch ''1.2.0'' ''1.3.0''
   \<and> map gauge (filter (\<lambda>s. metric s = ''tendermint_latest_version_mismatch'')
                        (Handler_samples w cfg data ls)) =
       (if Version (versionInfo data) \<noteq> [] \<and> TagName (releaseInfo data) \<noteq> []
        then [if versionsMatch (TagName (releaseInfo data)) (Version (versionInfo data))
              then 0 else 1]
        else [])"
proof -
  have 1: "versionsMatch a b = versionsMatch b a"
    by (auto simp add: versionsMatch_def)
  have 2: "versionsMatch a b \<longleftrightarrow> sublist a b \<or> sublist b a"
    by (auto simp add: versionsMatch_def Contains_sublist)
  have 3: "versionsMatch ''v1.2.0'' ''1.2.0''"
    by (simp add: versionsMatch_def HasPrefix_def)
  have 4: "\<not> versionsMatch ''1.2.0'' ''1.3.0''"
    by (simp add: versionsMatch_def HasPrefix_def)
  have 5: "map gauge (filter (\<lambda>s. metric s = ''tendermint_latest_version_mismatch'')
                        (Handler_samples w cfg data ls)) =
       (if Version (versionInfo data) \<noteq> [] \<and> TagName (releaseInfo data) \<noteq> []
        then [if versionsMatch (TagName (releaseInfo data)) (Version (versionInfo data))
              then 0 else 1]
        else [])"
    by (simp add: Handler_samples_mismatch BoolToFloat64_def)
  from 1 2 3 4 5 show ?thesis by blast
qed

text \<open>The gauge at a release \<open>1.3.0\<close> with the local version \<open>1.2.0\<close>, which do not
  match, and at a release \<open>v1.2.0\<close> with the local version \<open>1.2.0\<close>, which do.\<close>

theorem versionsMatch_symmetric_witness:
  "map gauge (filter (\<lambda>s. metric s = ''tendermint_latest_version_mismatch'')
       (Handler_samples example_Env example_Config
          (example_empty_Data
             \<lparr>releaseInfo := \<lparr>ReleaseInfo_Name = ''r'', TagName = ''1.3.0''\<rparr>,
              versionInfo := \<lparr>VersionInfo_Name = ''x'', Version = ''1.2.0''\<rparr>\<rparr>)
          example_status)) = [1]
   \<and> map gauge (filter (\<lambda>s. metric s = ''tendermint_latest_version_mismatch'')
       (Handler_samples example_Env example_Config
          (example_empty_Data
             \<lparr>releaseInfo := \<lparr>ReleaseInfo_Name = ''r'', TagName = ''v1.2.0''\<rparr>,
              versionInfo := \<lparr>VersionInfo_Name = ''x'', Version = ''1.2.0''\<rparr>\<rparr>)
          example_status)) = [0]"
proof -
  note gaugeValue = versionsMatch_symmetric
    [THEN conjunct2, THEN conjunct2, THEN conjunct2, THEN conjunct2]
  have mismatch: "map gauge (filter (\<lambda>s. metric s = ''tendermint_latest_version_mismatch'')
       (Handler_samples example_Env example_Config
          (example_empty_Data
             \<lparr>releaseInfo := \<lparr>ReleaseInfo_Name = ''r'', TagName = ''1.3.0''\<rparr>,
              versionInfo := \<lparr>VersionInfo_Name = ''x'', Version = ''1.2.0''\<rparr>\<rparr>)
          example_status)) = [1]"
    unfolding gaugeValue by (simp add: versionsMatch_def HasPrefix_def)
  have match: "map gauge (filter (\<lambda>s. metric s = ''tendermint_latest_version_mismatch'')
       (Handler_samples example_Env example_Config
          (example_empty_Data
             \<lparr>releaseInfo := \<lparr>ReleaseInfo_Name = ''r'', TagName = ''v1.2.0''\<rparr>,
              versionInfo := \<lparr>VersionInfo_Name = ''x'', Version = ''1.2.0''\<rparr>\<rparr>)
          example_status)) = [0]"
    unfolding gaugeValue by (simp add: versionsMatch_def HasPrefix_def)
  from mismatch match show ?thesis by blast
qed

subsection \<open>The status fetcher and the aggregator\<close>

lemma GetNodeStatus_not_nil_nil: "GetNodeStatus w url \<noteq> (None, None)"
  by (simp add: GetNodeStatus_def split: option.splits prod.splits)

lemma GetNodeStatus_ok_status:
  "snd (GetNodeStatus w url) = None \<Longrightarrow> fst (GetNodeStatus w url) \<noteq> None"
  using GetNodeStatus_not_nil_nil [of w url] by (cases "GetNodeStatus w url") auto

text \<open>
  Claim C7: \<^verbatim>\<open>GetNodeStatus\<close> never returns a nil status with a nil error. When the client
  is built and the query returns neither a status nor an error, the result is the error
  \<open>empty status from node\<close>; when building the client or the query fails, the result is
  that error.
\<close>

theorem GetNodeStatus_never_nil_nil:
  "GetNodeStatus w url \<noteq> (None, None)
   \<and> (tmrpc_New w url = None \<longrightarrow> client_Status w url = (None, None) \<longrightarrow>
        GetNodeStatus w url = (None, Some (ErrorString ''empty status from node'')))
   \<and> (tmrpc_New w url = Some e \<longrightarrow> GetNodeStatus w url = (None, Some e))
   \<and> (tmrpc_New w url = None \<longrightarrow> snd (client_Status w url) = Some e \<longrightarrow>
        GetNodeStatus w url = (None, Some e))"
proof (cases "tmrpc_New w url")
  case None
  obtain st queryError where query: "client_Status w url = (st, queryError)"
    by (cases "client_Status w url")
  show ?thesis
  proof (cases queryError)
    case None
    with \<open>tmrpc_New w url = None\<close> query show ?thesis
      by (simp add: GetNodeStatus_def)
  next
    case (Some queryErr)
    with \<open>tmrpc_New w url = None\<close> query show ?thesis
      by (simp add: GetNodeStatus_def)
  qed
next
  case (Some newErr)
  then show ?thesis
    by (simp add: GetNodeStatus_def)
qed

theorem GetNodeStatus_never_nil_nil_witness:
  "GetNodeStatus (example_Env\<lparr>client_Status := \<lambda>url. (None, None)\<rparr>) ''http://localhost:26657''
     = (None, Some (ErrorString ''empty status from node''))
   \<and> GetNodeStatus (example_Env\<lparr>tmrpc_New := \<lambda>url. Some (ErrorString ''no such host'')\<rparr>)
        ''http://localhost:26657''
     = (None, Some (ErrorString ''no such host''))
   \<and> GetNodeStatus
        (example_Env\<lparr>client_Status := \<lambda>url. (None, Some (ErrorString ''connection refused''))\<rparr>)
        ''http://localhost:26657''
     = (None, Some (ErrorString ''connection refused''))"
  using GetNodeStatus_never_nil_nil
          [of "example_Env\<lparr>client_Status := \<lambda>url. (None, None)\<rparr>" "''http://localhost:26657''"]
        GetNodeStatus_never_nil_nil
          [of "example_Env\<lparr>tmrpc_New := \<lambda>url. Some (ErrorString ''no such host'')\<rparr>"
              "''http://localhost:26657''" "ErrorString ''no such host''"]
        GetNodeStatus_never_nil_nil
          [of "example_Env\<lparr>client_Status := \<lambda>url. (None, Some (ErrorString ''connection refused''))\<rparr>"
              "''http://localhost:26657''" "ErrorString ''connection refused''"]
  by (simp add: example_Env_def)

lemma GetAllData_unfold:
  "GetAllData w cfg =
     (let l = fst (localStatus_goroutine w cfg);
          r = fst (remoteStatus_goroutine w cfg);
          g = fst (releaseInfo_goroutine w cfg);
          v = fst (versionInfo_goroutine w cfg)
      in if snd l \<noteq> None then Data_err (snd l)
         else if snd r \<noteq> None then Data_err (snd r)
         else if snd g \<noteq> None then Data_err (snd g)
         else if snd v \<noteq> None then Data_err (snd v)
         else \<lparr>releaseInfo = fst g, versionInfo = fst v,
               localStatus = fst l, remoteStatus = fst r, err = None\<rparr>)"
  by (simp add: GetAllData_def GetAllData_run_def Let_def split: prod.splits)

lemma GetAllData_err_cases:
  "err (GetAllData w cfg) \<noteq> None \<Longrightarrow> GetAllData w cfg = Data_err (err (GetAllData w cfg))"
  by (auto simp add: GetAllData_unfold Let_def Data_err_def split: if_splits)

lemma GetAllData_ok_localStatus:
  "err (GetAllData w cfg) = None \<Longrightarrow> localStatus (GetAllData w cfg) \<noteq> None"
  using GetNodeStatus_ok_status [of w "LocalTendermintRpc cfg"]
  by (auto simp add: GetAllData_unfold Let_def Data_err_def localStatus_goroutine_def
      split: if_splits)

text \<open>
  Claim C1: after the barrier the result of \<^verbatim>\<open>GetAllData\<close> is decided by the four error
  variables in the order local status, remote status, release, version probe: the first
  that is set is the \<^verbatim>\<open>err\<close> of the result, whose other fields are all zero, and only
  when none is set are the four values assembled. When the local status fetch fails, the
  \<^verbatim>\<open>err\<close> of the result is its error, whatever the other goroutines did.
\<close>

theorem GetAllData_first_error:
  "GetAllData w cfg =
     (case firstError [snd (fst (localStatus_goroutine w cfg)),
                       snd (fst (remoteStatus_goroutine w cfg)),
                       snd (fst (releaseInfo_goroutine w cfg)),
                       snd (fst (versionInfo_goroutine w cfg))] of
        Some e \<Rightarrow>
          \<lparr>releaseInfo = \<lparr>ReleaseInfo_Name = [], TagName = []\<rparr>,
           versionInfo = \<lparr>VersionInfo_Name = [], Version = []\<rparr>,
           localStatus = None, remoteStatus = None, err = Some e\<rparr>
      | None \<Rightarrow>
          \<lparr>releaseInfo = fst (fst (releaseInfo_goroutine w cfg)),
           versionInfo = fst (fst (versionInfo_goroutine w cfg)),
           localStatus = fst (fst (localStatus_goroutine w cfg)),
           remoteStatus = fst (fst (remoteStatus_goroutine w cfg)),
           err = None\<rparr>)
   \<and> (snd (GetNodeStatus w (LocalTendermintRpc cfg)) = Some e' \<longrightarrow>
        err (GetAllData w cfg) = Some e'
        \<and> localStatus (GetAllData w cfg) = None
        \<and> remoteStatus (GetAllData w cfg) = None
        \<and> releaseInfo (GetAllData w cfg) = \<lparr>ReleaseInfo_Name = [], TagName = []\<rparr>
        \<and> versionInfo (GetAllData w cfg) = \<lparr>VersionInfo_Name = [], Version = []\<rparr>)"
proof -
  obtain l r g v where
    "snd (fst (localStatus_goroutine w cfg)) = l" "snd (fst (remoteStatus_goroutine w cfg)) = r"
    "snd (fst (releaseInfo_goroutine w cfg)) = g" "snd (fst (versionInfo_goroutine w cfg)) = v"
    by blast
  moreover have "snd (fst (localStatus_goroutine w cfg))
                   = snd (GetNodeStatus w (LocalTendermintRpc cfg))"
    by (simp add: localStatus_goroutine_def)
  ultimately show ?thesis
    by (cases l; cases r; cases g; cases v)
       (simp_all add: GetAllData_unfold Let_def Data_err_def ReleaseInfo_zero_def
          VersionInfo_zero_def)
qed

text \<open>Four scrapes of the example configuration: all four fetches fail, all but the
  local one, the release fetch and the probe, the probe alone. Each fetch fails with a
  message of its own, and the result carries the message of the first in the order.\<close>

theorem GetAllData_first_error_witness:
  "snd (GetNodeStatus (example_Env_failing True True True True)
         (LocalTendermintRpc example_Config)) = Some (ErrorString ''connection refused'')
   \<and> err (GetAllData (example_Env_failing True True True True) example_Config)
       = Some (ErrorString ''connection refused'')
   \<and> GetAllData (example_Env_failing True True True True) example_Config
       = \<lparr>releaseInfo = \<lparr>ReleaseInfo_Name = [], TagName = []\<rparr>,
          versionInfo = \<lparr>VersionInfo_Name = [], Version = []\<rparr>,
          localStatus = None, remoteStatus = None,
          err = Some (ErrorString ''connection refused'')\<rparr>
   \<and> GetAllData (example_Env_failing False True True True) example_Config
       = \<lparr>releaseInfo = \<lparr>ReleaseInfo_Name = [], TagName = []\<rparr>,
          versionInfo = \<lparr>VersionInfo_Name = [], Version = []\<rparr>,
          localStatus = None, remoteStatus = None,
          err = Some (ErrorString ''i/o timeout'')\<rparr>
   \<and> GetAllData (example_Env_failing False False True True) example_Config
       = \<lparr>releaseInfo = \<lparr>ReleaseInfo_Name = [], TagName = []\<rparr>,
          versionInfo = \<lparr>VersionInfo_Name = [], Version = []\<rparr>,
          localStatus = None, remoteStatus = None,
          err = Some (ErrorString ''rate limit'')\<rparr>
   \<and> GetAllData (example_Env_failing False False False True) example_Config
       = \<lparr>releaseInfo = \<lparr>ReleaseInfo_Name = [], TagName = []\<rparr>,
          versionInfo = \<lparr>VersionInfo_Name = [], Version = []\<rparr>,
          localStatus = None, remoteStatus = None,
          err = Some (ErrorString ''exit status 1'')\<rparr>"
proof -
  note evaluate =
    localStatus_goroutine_def remoteStatus_goroutine_def releaseInfo_goroutine_def
    versionInfo_goroutine_def GetNodeStatus_def GetGithubRelease_def GetBinaryVersion_def
    example_Env_failing_def example_Env_def example_Config_def
  have localFails:
    "snd (GetNodeStatus (example_Env_failing True True True True)
         (LocalTendermintRpc example_Config)) = Some (ErrorString ''connection refused'')"
    by (simp add: evaluate)
  have localErr:
    "err (GetAllData (example_Env_failing True True True True) example_Config)
       = Some (ErrorString ''connection refused'')"
    using localFails
          GetAllData_first_error
            [THEN conjunct2, of "example_Env_failing True True True True" example_Config
               "ErrorString ''connection refused''"]
    by simp
  have allFail:
    "GetAllData (example_Env_failing True True True True) example_Config
       = \<lparr>releaseInfo = \<lparr>ReleaseInfo_Name = [], TagName = []\<rparr>,
          versionInfo = \<lparr>VersionInfo_Name = [], Version = []\<rparr>,
          localStatus = None, remoteStatus = None,
          err = Some (ErrorString ''connection refused'')\<rparr>"
    using GetAllData_first_error
            [THEN conjunct1, of "example_Env_failing True True True True" example_Config]
    by (simp add: evaluate)
  have remoteFirst:
    "GetAllData (example_Env_failing False True True True) example_Config
       = \<lparr>releaseInfo = \<lparr>ReleaseInfo_Name = [], TagName = []\<rparr>,
          versionInfo = \<lparr>VersionInfo_Name = [], Version = []\<rparr>,
          localStatus = None, remoteStatus = None,
          err = Some (ErrorString ''i/o timeout'')\<rparr>"
    using GetAllData_first_error
            [THEN conjunct1, of "example_Env_failing False True True True" example_Config]
    by (simp add: evaluate)
  have releaseFirst:
    "GetAllData (example_Env_failing False False True True) example_Config
       = \<lparr>releaseInfo = \<lparr>ReleaseInfo_Name = [], TagName = []\<rparr>,
          versionInfo = \<lparr>VersionInfo_Name = [], Version = []\<rparr>,
          localStatus = None, remoteStatus = None,
          err = Some (ErrorString ''rate limit'')\<rparr>"
    using GetAllData_first_error
            [THEN conjunct1, of "example_Env_failing False False True True" example_Config]
    by (simp add: evaluate)
  have versionLast:
    "GetAllData (example_Env_failing False False False True) example_Config
       = \<lparr>releaseInfo = \<lparr>ReleaseInfo_Name = [], TagName = []\<rparr>,
          versionInfo = \<lparr>VersionInfo_Name = [], Version = []\<rparr>,
          localStatus = None, remoteStatus = None,
          err = Some (ErrorString ''exit status 1'')\<rparr>"
    using GetAllData_first_error
            [THEN conjunct1, of "example_Env_failing False False False True" example_Config]
    by (simp add: evaluate)
  from localFails localErr allFail remoteFirst releaseFirst versionLast
  show ?thesis by blast
qed

text \<open>
  Claim C2: when a remote endpoint is configured, so that the remote status fetch runs,
  the local status fetch succeeds and the remote one returns an error, the \<^verbatim>\<open>err\<close> of
  the result of \<^verbatim>\<open>GetAllData\<close> is that error, and the result holds no data: both
  statuses are nil and the release and version structs are zero.
\<close>

theorem GetAllData_remote_error:
  assumes "RemoteTendermintRpc cfg \<noteq> []"
      and "snd (GetNodeStatus w (LocalTendermintRpc cfg)) = None"
      and "snd (GetNodeStatus w (RemoteTendermintRpc cfg)) = Some e"
    shows "err (GetAllData w cfg) = Some e
      \<and> GetAllData w cfg =
          \<lparr>releaseInfo = \<lparr>ReleaseInfo_Name = [], TagName = []\<rparr>,
           versionInfo = \<lparr>VersionInfo_Name = [], Version = []\<rparr>,
           localStatus = None, remoteStatus = None, err = Some e\<rparr>
      \<and> Fetch_GetNodeStatus (RemoteTendermintRpc cfg) \<in> set (fetchers_called w cfg)"
proof -
  have result: "GetAllData w cfg =
          \<lparr>releaseInfo = \<lparr>ReleaseInfo_Name = [], TagName = []\<rparr>,
           versionInfo = \<lparr>VersionInfo_Name = [], Version = []\<rparr>,
           localStatus = None, remoteStatus = None, err = Some e\<rparr>"
    using assms
    by (simp add: GetAllData_unfold Let_def localStatus_goroutine_def
        remoteStatus_goroutine_def Data_err_def ReleaseInfo_zero_def VersionInfo_zero_def)
  have launched: "Fetch_GetNodeStatus (RemoteTendermintRpc cfg) \<in> set (fetchers_called w cfg)"
    using assms(1)
    by (simp add: fetchers_called_def GetAllData_run_def remoteStatus_goroutine_def
        split: prod.splits)
  from result launched show ?thesis by simp
qed

text \<open>The example configuration with the local fetch successful and the three others
  failing: the result carries the remote fetch's message, not those of the release fetch
  or the probe, and no data.\<close>

theorem GetAllData_remote_error_witness:
  "RemoteTendermintRpc example_Config \<noteq> []
   \<and> snd (GetNodeStatus (example_Env_failing False True True True)
            (LocalTendermintRpc example_Config)) = None
   \<and> snd (GetNodeStatus (example_Env_failing False True True True)
            (RemoteTendermintRpc example_Config)) = Some (ErrorString ''i/o timeout'')
   \<and> err (GetAllData (example_Env_failing False True True True) example_Config)
       = Some (ErrorString ''i/o timeout'')
   \<and> GetAllData (example_Env_failing False True True True) example_Config
       = \<lparr>releaseInfo = \<lparr>ReleaseInfo_Name = [], TagName = []\<rparr>,
          versionInfo = \<lparr>VersionInfo_Name = [], Version = []\<rparr>,
          localStatus = None, remoteStatus = None,
          err = Some (ErrorString ''i/o timeout'')\<rparr>"
proof -
  have configured: "RemoteTendermintRpc example_Config \<noteq> []"
    by (simp add: example_Config_def)
  have localOk:
    "snd (GetNodeStatus (example_Env_failing False True True True)
            (LocalTendermintRpc example_Config)) = None"
    by (simp add: GetNodeStatus_def example_Env_failing_def example_Env_def example_Config_def)
  have remoteFails:
    "snd (GetNodeStatus (example_Env_failing False True True True)
            (RemoteTendermintRpc example_Config)) = Some (ErrorString ''i/o timeout'')"
    by (simp add: GetNodeStatus_def example_Env_failing_def example_Env_def example_Config_def)
  from configured localOk remoteFails
       GetAllData_remote_error [OF configured localOk remoteFails]
  show ?thesis by simp
qed

text \<open>
  Claim C3: with no remote endpoint, no binary path and the organisation or the repository
  unset, the only fetcher called is \<^verbatim>\<open>GetNodeStatus\<close> on the local endpoint; the three
  other slots stay zero and carry no error, so the result is the local status alone, or the
  error of the local fetch.
\<close>

theorem GetAllData_only_local:
  assumes "RemoteTendermintRpc cfg = []"
      and "GithubOrg cfg = [] \<or> GithubRepo cfg = []"
      and "BinaryPath cfg = []"
    shows "fetchers_called w cfg = [Fetch_GetNodeStatus (LocalTendermintRpc cfg)]
      \<and> GetAllData w cfg =
          (case GetNodeStatus w (LocalTendermintRpc cfg) of
             (st, Some e) \<Rightarrow> Data_err (Some e)
           | (st, None) \<Rightarrow>
               \<lparr>releaseInfo = ReleaseInfo_zero, versionInfo = VersionInfo_zero,
                localStatus = st, remoteStatus = None, err = None\<rparr>)
      \<and> (snd (GetNodeStatus w (LocalTendermintRpc cfg)) = None \<longrightarrow>
           err (GetAllData w cfg) = None)"
proof -
  have r: "remoteStatus_goroutine w cfg = ((None, None), [])"
    using assms(1) by (simp add: remoteStatus_goroutine_def)
  have g: "releaseInfo_goroutine w cfg = ((ReleaseInfo_zero, None), [])"
    using assms(2) by (auto simp add: releaseInfo_goroutine_def)
  have v: "versionInfo_goroutine w cfg = ((VersionInfo_zero, None), [])"
    using assms(3) by (simp add: versionInfo_goroutine_def)
  have "fetchers_called w cfg = [Fetch_GetNodeStatus (LocalTendermintRpc cfg)]"
    by (simp add: fetchers_called_def GetAllData_run_def r g v localStatus_goroutine_def
        split: prod.splits)
  moreover have "GetAllData w cfg =
          (case GetNodeStatus w (LocalTendermintRpc cfg) of
             (st, Some e) \<Rightarrow> Data_err (Some e)
           | (st, None) \<Rightarrow>
               \<lparr>releaseInfo = ReleaseInfo_zero, versionInfo = VersionInfo_zero,
                localStatus = st, remoteStatus = None, err = None\<rparr>)"
    by (cases "GetNodeStatus w (LocalTendermintRpc cfg)")
       (auto simp add: GetAllData_unfold r g v localStatus_goroutine_def split: option.splits)
  moreover have "snd (GetNodeStatus w (LocalTendermintRpc cfg)) = None \<longrightarrow>
                   err (GetAllData w cfg) = None"
    by (simp add: GetAllData_unfold r g v localStatus_goroutine_def)
  ultimately show ?thesis by blast
qed

theorem GetAllData_only_local_witness:
  "fetchers_called example_Env
     (example_Config\<lparr>RemoteTendermintRpc := [], BinaryPath := [], GithubOrg := [], GithubRepo := []\<rparr>)
     = [Fetch_GetNodeStatus ''http://localhost:26657'']
   \<and> GetAllData example_Env
     (example_Config\<lparr>RemoteTendermintRpc := [], BinaryPath := [], GithubOrg := [], GithubRepo := []\<rparr>)
     = \<lparr>releaseInfo = ReleaseInfo_zero, versionInfo = VersionInfo_zero,
        localStatus = Some example_status, remoteStatus = None, err = None\<rparr>"
  using GetAllData_only_local
          [of "example_Config\<lparr>RemoteTendermintRpc := [], BinaryPath := [], GithubOrg := [],
                               GithubRepo := []\<rparr>"
              example_Env]
  by (simp add: GetNodeStatus_def example_Env_def example_Config_def)

text \<open>
  The earlier revision's checks, for comparison: with the local fetch successful and only
  the remote error set, no check fires, and the result is a snapshot without error whose
  remote status is whatever the failed fetch left.
\<close>

lemma GetAllData_checks_part_001_remote_error:
  "GetAllData_checks_part_001 localSt remoteSt release version None (Some e) None None =
     \<lparr>releaseInfo = release, versionInfo = version,
      localStatus = localSt, remoteStatus = remoteSt, err = None\<rparr>"
  by (simp add: GetAllData_checks_part_001_def)

subsection \<open>The handler\<close>

text \<open>
  Claim C8: a \<^verbatim>\<open>Data\<close> returned by \<^verbatim>\<open>GetAllData\<close> with its error set has every other
  field zero, and the handler renders no gauge from it; one with its error unset has a
  local status, so the handler's dereference of \<^verbatim>\<open>data.localStatus\<close> does not panic.
\<close>

theorem GetAllData_snapshot_invariant:
  "(err (GetAllData w cfg) \<noteq> None \<longrightarrow>
      emitted (Handler_data w cfg (GetAllData w cfg)) = []
      \<and> GetAllData w cfg = Data_err (err (GetAllData w cfg)))
   \<and> (err (GetAllData w cfg) = None \<longrightarrow>
      localStatus (GetAllData w cfg) \<noteq> None
      \<and> Handler_data w cfg (GetAllData w cfg) \<noteq> Panic)"
proof (intro conjI impI)
  assume e: "err (GetAllData w cfg) \<noteq> None"
  then show "emitted (Handler_data w cfg (GetAllData w cfg)) = []"
    by (auto simp add: Handler_data_def)
  from e show "GetAllData w cfg = Data_err (err (GetAllData w cfg))"
    by (rule GetAllData_err_cases)
next
  assume e: "err (GetAllData w cfg) = None"
  then show l: "localStatus (GetAllData w cfg) \<noteq> None"
    by (rule GetAllData_ok_localStatus)
  with e show "Handler_data w cfg (GetAllData w cfg) \<noteq> Panic"
    by (auto simp add: Handler_data_def)
qed

lemma example_GetAllData:
  "GetAllData example_Env example_Config =
     \<lparr>releaseInfo = \<lparr>ReleaseInfo_Name = ''Gaia v2.0.0'', TagName = ''v2.0.0''\<rparr>,
      versionInfo = \<lparr>VersionInfo_Name = ''x'', Version = ''2.0.0''\<rparr>,
      localStatus = Some example_status, remoteStatus = Some example_remote_status,
      err = None\<rparr>"
  by (simp add: GetAllData_unfold Let_def localStatus_goroutine_def remoteStatus_goroutine_def
      releaseInfo_goroutine_def versionInfo_goroutine_def GetNodeStatus_def GetGithubRelease_def
      GetBinaryVersion_def getJsonString_def Split_def isJsonLine_def HasPrefix_def HasSuffix_def
      example_Env_def example_Config_def example_json_def newline_def)

lemma example_GetAllData_down:
  "GetAllData (example_Env\<lparr>tmrpc_New := \<lambda>url. Some (ErrorString ''connection refused'')\<rparr>)
     example_Config
   = Data_err (Some (ErrorString ''connection refused''))"
  by (simp add: GetAllData_unfold Let_def localStatus_goroutine_def GetNodeStatus_def
      example_Env_def)

theorem GetAllData_snapshot_invariant_witness:
  "localStatus (GetAllData example_Env example_Config) = Some example_status
   \<and> Handler_data example_Env example_Config (GetAllData example_Env example_Config) \<noteq> Panic
   \<and> emitted (Handler_data
        (example_Env\<lparr>tmrpc_New := \<lambda>url. Some (ErrorString ''connection refused'')\<rparr>)
        example_Config
        (GetAllData
           (example_Env\<lparr>tmrpc_New := \<lambda>url. Some (ErrorString ''connection refused'')\<rparr>)
           example_Config)) = []"
  using GetAllData_snapshot_invariant [of example_Env example_Config]
        GetAllData_snapshot_invariant
          [of "example_Env\<lparr>tmrpc_New := \<lambda>url. Some (ErrorString ''connection refused'')\<rparr>"
              example_Config]
  by (simp add: example_GetAllData example_GetAllData_down Data_err_def)

text \<open>
  Claim C9: when \<^verbatim>\<open>GetAllData\<close> returns an error, the handler answers with status 500
  and the plain text \<open>Error fetching data: \<close> followed by the error's message, and no
  gauge; otherwise it answers with status 200 and the exposition of the gauges it has set.
\<close>

theorem Handler_status_and_body:
  "(err (GetAllData w cfg) = Some e \<longrightarrow>
      Handler w cfg =
        Reply \<lparr>StatusCode = 500, Body = PlainText (''Error fetching data: '' @ Error e)\<rparr>
      \<and> emitted (Handler w cfg) = [])
   \<and> (err (GetAllData w cfg) = None \<longrightarrow>
      (\<exists>ls. localStatus (GetAllData w cfg) = Some ls
        \<and> Handler w cfg =
            Reply \<lparr>StatusCode = 200,
                   Body = Exposition (Handler_samples w cfg (GetAllData w cfg) ls)\<rparr>))"
proof (intro conjI impI)
  assume e: "err (GetAllData w cfg) = Some e"
  then show "Handler w cfg =
        Reply \<lparr>StatusCode = 500, Body = PlainText (''Error fetching data: '' @ Error e)\<rparr>"
    by (simp add: Handler_def Handler_data_def)
  from e show "emitted (Handler w cfg) = []"
    by (simp add: Handler_def Handler_data_def)
next
  assume e: "err (GetAllData w cfg) = None"
  then obtain ls where "localStatus (GetAllData w cfg) = Some ls"
    using GetAllData_ok_localStatus by blast
  with e show "\<exists>ls. localStatus (GetAllData w cfg) = Some ls
        \<and> Handler w cfg =
            Reply \<lparr>StatusCode = 200,
                   Body = Exposition (Handler_samples w cfg (GetAllData w cfg) ls)\<rparr>"
    by (simp add: Handler_def Handler_data_def)
qed

theorem Handler_status_and_body_witness:
  "Handler (example_Env\<lparr>tmrpc_New := \<lambda>url. Some (ErrorString ''connection refused'')\<rparr>)
     example_Config
     = Reply \<lparr>StatusCode = 500, Body = PlainText ''Error fetching data: connection refused''\<rparr>
   \<and> Handler example_Env example_Config
     = Reply \<lparr>StatusCode = 200,
              Body = Exposition (Handler_samples example_Env example_Config
                                   (GetAllData example_Env example_Config) example_status)\<rparr>
   \<and> map (\<lambda>s. (metric s, gauge s))
        (Handler_samples example_Env example_Config
           (GetAllData example_Env example_Config) example_status)
     = [(''tendermint_node_catching_up'', 0), (''tendermint_node_voting_power'', 100),
        (''tendermint_node_time_since_latest_block'', 5), (''tendermint_node_app_version'', 1),
        (''tendermint_github_latest_version'', 1), (''tendermint_latest_version_mismatch'', 0),
        (''tendermint_local_node_latest_block'', 500),
        (''tendermint_remote_node_latest_block'', 501)]"
proof -
  have down: "Handler (example_Env\<lparr>tmrpc_New := \<lambda>url. Some (ErrorString ''connection refused'')\<rparr>)
     example_Config
     = Reply \<lparr>StatusCode = 500, Body = PlainText ''Error fetching data: connection refused''\<rparr>"
    using Handler_status_and_body
          [of "example_Env\<lparr>tmrpc_New := \<lambda>url. Some (ErrorString ''connection refused'')\<rparr>"
              example_Config "ErrorString ''connection refused''"]
    by (simp add: example_GetAllData_down Data_err_def)
  have up: "Handler example_Env example_Config
     = Reply \<lparr>StatusCode = 200,
              Body = Exposition (Handler_samples example_Env example_Config
                                   (GetAllData example_Env example_Config) example_status)\<rparr>"
    using Handler_status_and_body [of example_Env example_Config]
    by (simp add: example_GetAllData)
  have samples: "map (\<lambda>s. (metric s, gauge s))
        (Handler_samples example_Env example_Config
           (GetAllData example_Env example_Config) example_status)
     = [(''tendermint_node_catching_up'', 0), (''tendermint_node_voting_power'', 100),
        (''tendermint_node_time_since_latest_block'', 5), (''tendermint_node_app_version'', 1),
        (''tendermint_github_latest_version'', 1), (''tendermint_latest_version_mismatch'', 0),
        (''tendermint_local_node_latest_block'', 500),
        (''tendermint_remote_node_latest_block'', 501)]"
    unfolding example_GetAllData
    by (simp add: Handler_samples_def Let_def example_status_def
        example_remote_status_def example_Env_def BoolToFloat64_def float64_of_int64_def
        round_to_float64_def versionsMatch_def HasPrefix_def)
  from down up samples show ?thesis by blast
qed

lemma Handler_samples_Config:
  "GithubOrg cfg' = GithubOrg cfg \<Longrightarrow> GithubRepo cfg' = GithubRepo cfg \<Longrightarrow>
     Handler_samples w cfg' data ls = Handler_samples w cfg data ls"
  by (simp add: Handler_samples_def Let_def)

lemma Handler_data_no_version:
  "Version (versionInfo data) = [] \<Longrightarrow>
     Handler_data w cfg (data\<lparr>versionInfo := VersionInfo_zero\<rparr>) = Handler_data w cfg data"
  by (simp add: Handler_data_def Handler_samples_no_version split: option.splits)

lemma Handler_data_no_tag:
  "TagName (releaseInfo data) = [] \<Longrightarrow>
     Handler_data w cfg' (data\<lparr>releaseInfo := ReleaseInfo_zero\<rparr>) = Handler_data w cfg data"
  by (simp add: Handler_data_def Handler_samples_no_tag split: option.splits)

lemma Handler_data_Config:
  "GithubOrg cfg' = GithubOrg cfg \<Longrightarrow> GithubRepo cfg' = GithubRepo cfg \<Longrightarrow>
     Handler_data w cfg' data = Handler_data w cfg data"
  by (simp add: Handler_data_def Handler_samples_Config [of cfg' cfg] split: option.splits)

lemma Handler_empty_version:
  assumes "BinaryPath cfg \<noteq> []"
      and "GetBinaryVersion w cfg = (info, None)"
      and "Version info = []"
    shows "Handler w cfg = Handler w (cfg\<lparr>BinaryPath := []\<rparr>)"
proof -
  let ?cfg' = "cfg\<lparr>BinaryPath := []\<rparr>"
  have l: "localStatus_goroutine w ?cfg' = localStatus_goroutine w cfg"
    by (simp add: localStatus_goroutine_def)
  have r: "remoteStatus_goroutine w ?cfg' = remoteStatus_goroutine w cfg"
    by (simp add: remoteStatus_goroutine_def)
  have g: "releaseInfo_goroutine w ?cfg' = releaseInfo_goroutine w cfg"
    by (simp add: releaseInfo_goroutine_def GetGithubRelease_def Let_def split: option.splits)
  have v: "fst (versionInfo_goroutine w cfg) = (info, None)"
    using assms by (simp add: versionInfo_goroutine_def)
  have v': "fst (versionInfo_goroutine w ?cfg') = (VersionInfo_zero, None)"
    by (simp add: versionInfo_goroutine_def)
  show ?thesis
  proof (cases "err (GetAllData w cfg)")
    case None
    then have "GetAllData w ?cfg' = (GetAllData w cfg)\<lparr>versionInfo := VersionInfo_zero\<rparr>"
      by (simp add: GetAllData_unfold Let_def l r g v v' Data_err_def split: if_splits)
    moreover have "Version (versionInfo (GetAllData w cfg)) = []"
      using None assms(3) by (simp add: GetAllData_unfold Let_def v Data_err_def split: if_splits)
    ultimately show ?thesis
      by (simp add: Handler_def Handler_data_no_version Handler_data_Config [of ?cfg' cfg])
  next
    case (Some e)
    then have "GetAllData w ?cfg' = GetAllData w cfg"
      by (simp add: GetAllData_unfold Let_def l r g v v' Data_err_def split: if_splits)
    then show ?thesis
      by (simp add: Handler_def Handler_data_Config [of ?cfg' cfg])
  qed
qed

lemma Handler_empty_tag:
  assumes "GithubOrg cfg \<noteq> []" and "GithubRepo cfg \<noteq> []"
      and "fst (releaseInfo_goroutine w cfg) = (release, None)"
      and "TagName release = []"
    shows "Handler w cfg = Handler w (cfg\<lparr>GithubOrg := [], GithubRepo := []\<rparr>)"
proof -
  let ?cfg' = "cfg\<lparr>GithubOrg := [], GithubRepo := []\<rparr>"
  have l: "localStatus_goroutine w ?cfg' = localStatus_goroutine w cfg"
    by (simp add: localStatus_goroutine_def)
  have r: "remoteStatus_goroutine w ?cfg' = remoteStatus_goroutine w cfg"
    by (simp add: remoteStatus_goroutine_def)
  have v: "versionInfo_goroutine w ?cfg' = versionInfo_goroutine w cfg"
    by (simp add: versionInfo_goroutine_def GetBinaryVersion_def Let_def split: prod.splits option.splits)
  have g': "fst (releaseInfo_goroutine w ?cfg') = (ReleaseInfo_zero, None)"
    by (simp add: releaseInfo_goroutine_def)
  note g = assms(3)
  show ?thesis
  proof (cases "err (GetAllData w cfg)")
    case None
    then have "GetAllData w ?cfg' = (GetAllData w cfg)\<lparr>releaseInfo := ReleaseInfo_zero\<rparr>"
      by (simp add: GetAllData_unfold Let_def l r g v g' Data_err_def split: if_splits)
    moreover have "TagName (releaseInfo (GetAllData w cfg)) = []"
      using None assms(4) by (simp add: GetAllData_unfold Let_def g Data_err_def split: if_splits)
    ultimately show ?thesis
      using Handler_data_no_tag [of "GetAllData w cfg" w ?cfg' cfg]
      by (simp add: Handler_def)
  next
    case (Some e)
    then have "GetAllData w ?cfg' = GetAllData w cfg"
      by (simp add: GetAllData_unfold Let_def l r g v g' Data_err_def split: if_splits)
    then show ?thesis
      using Some by (simp add: Handler_def Handler_data_def)
  qed
qed

text \<open>
  Claim C10: in an error-free snapshot the optional gauges are decided by the values, not
  by whether a fetch ran: the application version gauge is there exactly when the version
  string is not empty, the latest release gauge exactly when the tag is not empty, the
  mismatch gauge exactly when both are, and the remote block gauge exactly when the remote
  status is not nil. A snapshot with an empty version (or tag) renders as the one with a
  zero \<^verbatim>\<open>VersionInfo\<close> (or \<^verbatim>\<open>ReleaseInfo\<close>), and a probe (or release fetch) that
  succeeds with an empty version (or tag) gives the response of the configuration without
  a binary path (or without organisation and repository).
\<close>

theorem Handler_presence_by_sentinel:
  "(err data = None \<longrightarrow> localStatus data = Some ls \<longrightarrow>
      Handler_data w cfg data =
        Reply \<lparr>StatusCode = 200, Body = Exposition (Handler_samples w cfg data ls)\<rparr>
      \<and> (''tendermint_node_app_version'' \<in> set (map metric (Handler_samples w cfg data ls))
           \<longleftrightarrow> Version (versionInfo data) \<noteq> [])
      \<and> (''tendermint_github_latest_version'' \<in> set (map metric (Handler_samples w cfg data ls))
           \<longleftrightarrow> TagName (releaseInfo data) \<noteq> [])
      \<and> (''tendermint_latest_version_mismatch'' \<in> set (map metric (Handler_samples w cfg data ls))
           \<longleftrightarrow> Version (versionInfo data) \<noteq> [] \<and> TagName (releaseInfo data) \<noteq> [])
      \<and> (''tendermint_remote_node_latest_block'' \<in> set (map metric (Handler_samples w cfg data ls))
           \<longleftrightarrow> remoteStatus data \<noteq> None))
   \<and> (Version (versionInfo data) = [] \<longrightarrow>
        Handler_data w cfg (data\<lparr>versionInfo := VersionInfo_zero\<rparr>) = Handler_data w cfg data)
   \<and> (TagName (releaseInfo data) = [] \<longrightarrow>
        Handler_data w cfg' (data\<lparr>releaseInfo := ReleaseInfo_zero\<rparr>) = Handler_data w cfg data)
   \<and> (BinaryPath cfg \<noteq> [] \<longrightarrow> GetBinaryVersion w cfg = (info, None) \<longrightarrow> Version info = [] \<longrightarrow>
        Handler w cfg = Handler w (cfg\<lparr>BinaryPath := []\<rparr>))
   \<and> (GithubOrg cfg \<noteq> [] \<longrightarrow> GithubRepo cfg \<noteq> [] \<longrightarrow>
        fst (releaseInfo_goroutine w cfg) = (release, None) \<longrightarrow> TagName release = [] \<longrightarrow>
        Handler w cfg = Handler w (cfg\<lparr>GithubOrg := [], GithubRepo := []\<rparr>))"
proof -
  have 1: "Handler_data w cfg data =
           Reply \<lparr>StatusCode = 200, Body = Exposition (Handler_samples w cfg data ls)\<rparr>"
    if "err data = None" and "localStatus data = Some ls"
    using that by (simp add: Handler_data_def)
  have 2: "''tendermint_node_app_version'' \<in> set (map metric (Handler_samples w cfg data ls))
         \<longleftrightarrow> Version (versionInfo data) \<noteq> []"
    unfolding Handler_samples_metrics by simp
  have 3: "''tendermint_github_latest_version'' \<in> set (map metric (Handler_samples w cfg data ls))
         \<longleftrightarrow> TagName (releaseInfo data) \<noteq> []"
    unfolding Handler_samples_metrics by simp
  have 4: "''tendermint_latest_version_mismatch'' \<in> set (map metric (Handler_samples w cfg data ls))
         \<longleftrightarrow> Version (versionInfo data) \<noteq> [] \<and> TagName (releaseInfo data) \<noteq> []"
    unfolding Handler_samples_metrics by simp
  have 5: "''tendermint_remote_node_latest_block'' \<in> set (map metric (Handler_samples w cfg data ls))
         \<longleftrightarrow> remoteStatus data \<noteq> None"
    unfolding Handler_samples_metrics by simp
  have 6: "Version (versionInfo data) = [] \<longrightarrow>
         Handler_data w cfg (data\<lparr>versionInfo := VersionInfo_zero\<rparr>) = Handler_data w cfg data"
    by (simp add: Handler_data_no_version)
  have 7: "TagName (releaseInfo data) = [] \<longrightarrow>
         Handler_data w cfg' (data\<lparr>releaseInfo := ReleaseInfo_zero\<rparr>) = Handler_data w cfg data"
    using Handler_data_no_tag [of data w cfg' cfg] by simp
  have 8: "BinaryPath cfg \<noteq> [] \<longrightarrow> GetBinaryVersion w cfg = (info, None) \<longrightarrow> Version info = [] \<longrightarrow>
        Handler w cfg = Handler w (cfg\<lparr>BinaryPath := []\<rparr>)"
    using Handler_empty_version by blast
  have 9: "GithubOrg cfg \<noteq> [] \<longrightarrow> GithubRepo cfg \<noteq> [] \<longrightarrow>
        fst (releaseInfo_goroutine w cfg) = (release, None) \<longrightarrow> TagName release = [] \<longrightarrow>
        Handler w cfg = Handler w (cfg\<lparr>GithubOrg := [], GithubRepo := []\<rparr>)"
    using Handler_empty_tag by blast
  from 1 2 3 4 5 6 7 8 9 show ?thesis by blast
qed

theorem Handler_presence_by_sentinel_witness:
  "map metric (Handler_samples example_Env example_Config example_empty_Data example_status)
     = [''tendermint_node_catching_up'', ''tendermint_node_voting_power'',
        ''tendermint_node_time_since_latest_block'', ''tendermint_local_node_latest_block'']
   \<and> Handler_data example_Env example_Config
        (example_empty_Data\<lparr>versionInfo := VersionInfo_zero\<rparr>)
       = Handler_data example_Env example_Config example_empty_Data
   \<and> Handler_data example_Env (example_Config\<lparr>GithubOrg := [], GithubRepo := []\<rparr>)
        (example_empty_Data\<lparr>releaseInfo := ReleaseInfo_zero\<rparr>)
       = Handler_data example_Env example_Config example_empty_Data
   \<and> Handler (example_Env\<lparr>Unmarshal_VersionInfo :=
                 \<lambda>text. (\<lparr>VersionInfo_Name = ''x'', Version = []\<rparr>, None)\<rparr>) example_Config
       = Handler (example_Env\<lparr>Unmarshal_VersionInfo :=
                 \<lambda>text. (\<lparr>VersionInfo_Name = ''x'', Version = []\<rparr>, None)\<rparr>)
           (example_Config\<lparr>BinaryPath := []\<rparr>)
   \<and> Handler (example_Env\<lparr>Decode_ReleaseInfo :=
                 \<lambda>resBody target. (\<lparr>ReleaseInfo_Name = ''draft'', TagName = []\<rparr>, None)\<rparr>)
         example_Config
       = Handler (example_Env\<lparr>Decode_ReleaseInfo :=
                 \<lambda>resBody target. (\<lparr>ReleaseInfo_Name = ''draft'', TagName = []\<rparr>, None)\<rparr>)
           (example_Config\<lparr>GithubOrg := [], GithubRepo := []\<rparr>)"
proof -
  note sentinel = Handler_presence_by_sentinel
  have a: "map metric (Handler_samples example_Env example_Config example_empty_Data example_status)
     = [''tendermint_node_catching_up'', ''tendermint_node_voting_power'',
        ''tendermint_node_time_since_latest_block'', ''tendermint_local_node_latest_block'']"
    using sentinel [where data = example_empty_Data and ls = example_status
                 and w = example_Env and cfg = example_Config, THEN conjunct1]
    by (simp add: example_empty_Data_def Handler_samples_metrics)
  have b: "Handler_data example_Env example_Config
        (example_empty_Data\<lparr>versionInfo := VersionInfo_zero\<rparr>)
       = Handler_data example_Env example_Config example_empty_Data"
    using sentinel [where data = example_empty_Data and w = example_Env and cfg = example_Config,
               THEN conjunct2, THEN conjunct1]
    by (simp add: example_empty_Data_def)
  have c: "Handler_data example_Env (example_Config\<lparr>GithubOrg := [], GithubRepo := []\<rparr>)
        (example_empty_Data\<lparr>releaseInfo := ReleaseInfo_zero\<rparr>)
       = Handler_data example_Env example_Config example_empty_Data"
    using sentinel [where data = example_empty_Data and w = example_Env and cfg = example_Config
                 and cfg' = "example_Config\<lparr>GithubOrg := [], GithubRepo := []\<rparr>",
               THEN conjunct2, THEN conjunct2, THEN conjunct1]
    by (simp add: example_empty_Data_def)
  have d: "Handler (example_Env\<lparr>Unmarshal_VersionInfo :=
                 \<lambda>text. (\<lparr>VersionInfo_Name = ''x'', Version = []\<rparr>, None)\<rparr>) example_Config
       = Handler (example_Env\<lparr>Unmarshal_VersionInfo :=
                 \<lambda>text. (\<lparr>VersionInfo_Name = ''x'', Version = []\<rparr>, None)\<rparr>)
           (example_Config\<lparr>BinaryPath := []\<rparr>)"
    using sentinel [where w = "example_Env\<lparr>Unmarshal_VersionInfo :=
                 \<lambda>text. (\<lparr>VersionInfo_Name = ''x'', Version = []\<rparr>, None)\<rparr>"
                 and cfg = example_Config
                 and info = "\<lparr>VersionInfo_Name = ''x'', Version = []\<rparr>",
               THEN conjunct2, THEN conjunct2, THEN conjunct2, THEN conjunct1]
    by (simp add: GetBinaryVersion_def example_Env_def example_Config_def)
  have e: "Handler (example_Env\<lparr>Decode_ReleaseInfo :=
                 \<lambda>resBody target. (\<lparr>ReleaseInfo_Name = ''draft'', TagName = []\<rparr>, None)\<rparr>)
         example_Config
       = Handler (example_Env\<lparr>Decode_ReleaseInfo :=
                 \<lambda>resBody target. (\<lparr>ReleaseInfo_Name = ''draft'', TagName = []\<rparr>, None)\<rparr>)
           (example_Config\<lparr>GithubOrg := [], GithubRepo := []\<rparr>)"
    using sentinel [where w = "example_Env\<lparr>Decode_ReleaseInfo :=
                 \<lambda>resBody target. (\<lparr>ReleaseInfo_Name = ''draft'', TagName = []\<rparr>, None)\<rparr>"
                 and cfg = example_Config
                 and release = "\<lparr>ReleaseInfo_Name = ''draft'', TagName = []\<rparr>",
               THEN conjunct2, THEN conjunct2, THEN conjunct2, THEN conjunct2]
    by (simp add: releaseInfo_goroutine_def GetGithubRelease_def example_Env_def
        example_Config_def)
  from a b c d e show ?thesis by blast
qed

end
